theory Spec2Isabelle
  imports Complex_Main
begin

section \<open>Data model\<close>

text \<open>
  The dashboard script \<^verbatim>\<open>static/js/main.js\<close> keeps three module-level variables
  (\<^verbatim>\<open>newsData\<close>, \<^verbatim>\<open>stockData\<close>, \<^verbatim>\<open>isAsking\<close>) and writes to five DOM elements.
  The payload types are those of the two JSON endpoints.

  Strings are byte strings (UTF-8), so the markup produced by the renderers is compared
  byte for byte. A JavaScript number received from JSON is modelled by the real number
  it denotes; the two zeros of IEEE arithmetic behave alike in every operation the script
  applies to a number (\<^verbatim>\<open>>= 0\<close>, truthiness, formatting), and JSON carries no NaN. The
  fields of a quote and of a news item are typed as the endpoints document them; a quote
  without a price, or a news item that is not an object, is outside the model.
\<close>

type_synonym number = real

record stock_quote =
  symbol :: string
  price :: number
  change :: number
  percent_change :: number

text \<open>Every field of an analysis object is optional: \<open>None\<close> stands for a property that is
  absent (or \<^verbatim>\<open>null\<close>); both are falsy in JavaScript.\<close>

record analysis_obj =
  sentiment :: "string option"
  impact_score :: "number option"
  summary_th :: "string option"
  summary_en :: "string option"

record news_item =
  source :: string
  title :: string
  link :: string
  published :: string
  analysis :: "analysis_obj option"

text \<open>The payload of the feed endpoint. A JavaScript object is held as the list of its entries
  in the order in which \<^verbatim>\<open>Object.keys\<close> enumerates them.\<close>

record feed_data =
  news :: "news_item list"
  stocks :: "(string \<times> stock_quote) list"

text \<open>The JSON object answered by either endpoint, with the properties the script reads;
  \<open>None\<close> is a property that is absent (for \<open>status\<close>, also one that is not a string). A
  JSON number, string or boolean has none of the four properties and behaves as the
  object without them.\<close>

record envelope =
  status :: "string option"
  message :: "string option"
  answer :: "string option"
  data :: "feed_data option"

text \<open>What a request can come back with: \<^verbatim>\<open>fetch\<close> rejects, or a response arrives whose
  body is not JSON, is the JSON value \<^verbatim>\<open>null\<close>, or is a JSON object.\<close>

datatype json_body = Unparsable | JsonNull | JsonObject envelope

datatype fetch_outcome = Rejected | Response bool string json_body
  \<comment> \<open>\<open>Response ok statusText body\<close>\<close>

datatype js_error = FetchFailed | NotOk string | JsonSyntaxError | TypeError

datatype request = GET string | POST string string
  \<comment> \<open>\<open>POST url question\<close>: the body is the JSON object with the one property \<^verbatim>\<open>question\<close>\<close>

section \<open>Host functions\<close>

text \<open>
  The built-in functions the script calls are parameters of the model:
  \<^verbatim>\<open>x.toFixed(2)\<close>, the conversion of a number inside a template literal,
  \<^verbatim>\<open>new Date(x).toLocaleString('en-GB', { dateStyle: 'medium', timeStyle: 'short' })\<close>
  and \<^verbatim>\<open>String.prototype.trim\<close>. Each is a function of its argument alone.
\<close>

record host =
  toFixed2 :: "number \<Rightarrow> string"
  numberToString :: "number \<Rightarrow> string"
  toLocaleString :: "string \<Rightarrow> string"
  trim :: "string \<Rightarrow> string"

section \<open>Session state and DOM\<close>

text \<open>
  The three module variables, the properties of the five DOM elements that the script
  writes, and two logs of what leaves the page: the requests handed to \<^verbatim>\<open>fetch\<close> and the
  calls of \<^verbatim>\<open>console.error\<close>. \<open>finally_runs\<close> is a ghost counter of the executions of
  the \<^verbatim>\<open>finally\<close> block of \<^verbatim>\<open>handleAskQuestion\<close>; nothing reads it.
\<close>

record state =
  newsData :: "news_item list"
  stockData :: "(string \<times> stock_quote) list"
  isAsking :: bool
  stockBarContainer_innerHTML :: string
  newsContainer_innerHTML :: string
  qaInput_value :: string
  qaButton_disabled :: bool
  qaButton_textContent :: string
  qaAnswerBox_opacity :: string
  qaAnswerBox_textContent :: string
  requests :: "request list"
  console :: "(string \<times> js_error) list"
  finally_runs :: nat

section \<open>Falsy defaults\<close>

text \<open>\<^verbatim>\<open>x || d\<close> for an optional string \<open>x\<close>: an absent value and the empty string are falsy.\<close>

definition str_or :: "string option \<Rightarrow> string \<Rightarrow> string" where
  "str_or x d = (case x of None \<Rightarrow> d | Some v \<Rightarrow> if v = [] then d else v)"

text \<open>\<^verbatim>\<open>x || d\<close> for an optional number \<open>x\<close> and a string \<open>d\<close>, as the text a template literal
  makes of the result: an absent value and zero are falsy.\<close>

definition num_or :: "host \<Rightarrow> number option \<Rightarrow> string \<Rightarrow> string" where
  "num_or h x d = (case x of None \<Rightarrow> d | Some v \<Rightarrow> if v = 0 then d else numberToString h v)"

section \<open>Rendering\<close>

text \<open>A piece of text interpolated into a template literal.\<close>

type_synonym fragment = string

subsection \<open>Ticker\<close>

text \<open>The template literal of \<^verbatim>\<open>renderStockBar\<close>, as a function of its seven
  interpolations in the order in which they appear.\<close>

definition stock_box_markup ::
  "fragment \<Rightarrow> fragment \<Rightarrow> fragment \<Rightarrow> fragment \<Rightarrow> fragment \<Rightarrow> fragment \<Rightarrow> fragment
     \<Rightarrow> string" where
  \<open>stock_box_markup symb prc cls sg1 chg sg2 pct =
     ''\<newline>            <div class="stock-box">'' @
     ''\<newline>                <span class="symbol">'' @ symb @ ''</span>'' @
     ''\<newline>                <span class="price">'' @ prc @ ''</span>'' @
     ''\<newline>                <span class="change '' @ cls @ ''">'' @
     ''\<newline>                    '' @ sg1 @ chg @ '' ('' @ sg2 @ pct @ ''%)'' @
     ''\<newline>                </span>'' @
     ''\<newline>            </div>'' @
     ''\<newline>        ''\<close>

text \<open>The body of the arrow function mapped over the symbols.\<close>

definition stock_box :: "host \<Rightarrow> stock_quote \<Rightarrow> string" where
  "stock_box h stock =
     (let changeClass = (if change stock \<ge> 0 then ''positive'' else ''negative'');
          sign = (if change stock \<ge> 0 then ''+'' else '''')
      in stock_box_markup (symbol stock) (toFixed2 h (price stock)) changeClass
           sign (toFixed2 h (change stock)) sign (toFixed2 h (percent_change stock)))"

text \<open>\<^verbatim>\<open>Object.keys(stockData).map(symbol => ... stockData[symbol] ...)\<close> visits every entry
  of the object once, in key order.\<close>

definition renderStockBar :: "host \<Rightarrow> state \<Rightarrow> state" where
  \<open>renderStockBar h s =
     (let stockSymbols = map fst (stockData s) in
      if length stockSymbols = 0
      then s\<lparr>stockBarContainer_innerHTML := ''<div class="stock-box">Fetching stock data...</div>''\<rparr>
      else
        let stockHTML = concat (map (\<lambda>(symbol, stock). stock_box h stock) (stockData s))
        in s\<lparr>stockBarContainer_innerHTML :=
               ''<div class="stock-ticker-inner">'' @ stockHTML @ stockHTML @ ''</div>''\<rparr>)\<close>

subsection \<open>Card feed\<close>

definition error_markup :: "string \<Rightarrow> string" where
  \<open>error_markup msg =
     ''\<newline>        <div class="error-screen">'' @
     ''\<newline>            <h2>Something went wrong</h2>'' @
     ''\<newline>            <p>'' @ msg @ ''</p>'' @
     ''\<newline>        </div>'' @
     ''\<newline>    ''\<close>

definition renderError :: "string \<Rightarrow> state \<Rightarrow> state" where
  "renderError msg s = s\<lparr>newsContainer_innerHTML := error_markup msg\<rparr>"

text \<open>The template literal of \<^verbatim>\<open>renderNewsCard\<close>. The arrow of the link text is U+2192,
  three bytes in UTF-8.\<close>

definition news_card_markup ::
  "fragment \<Rightarrow> fragment \<Rightarrow> fragment \<Rightarrow> fragment \<Rightarrow> fragment \<Rightarrow> fragment \<Rightarrow> fragment
     \<Rightarrow> fragment \<Rightarrow> fragment \<Rightarrow> string" where
  \<open>news_card_markup src pub publishedDate ttl summary sentimentClass snt impact lnk =
     ''\<newline>        <div class="story-card">'' @
     ''\<newline>            <header class="card-header">'' @
     ''\<newline>                <span class="card-source">'' @ src @ ''</span>'' @
     ''\<newline>                <time datetime="'' @ pub @ ''">'' @ publishedDate @ ''</time>'' @
     ''\<newline>            </header>'' @
     ''\<newline>            <h2 class="card-title">'' @ ttl @ ''</h2>'' @
     ''\<newline>            <p class="card-summary">'' @ summary @ ''</p>'' @
     ''\<newline>            <footer class="card-footer">'' @
     ''\<newline>                <div class="sentiment-badge '' @ sentimentClass @ ''">'' @ snt @ ''</div>'' @
     ''\<newline>                <div class="impact-score">Impact: '' @ impact @ ''/10</div>'' @
     ''\<newline>                <a href="'' @ lnk @
       ''" target="_blank" rel="noopener noreferrer" class="source-link">Read Source '' @
       [CHR 0xE2, CHR 0x86, CHR 0x92] @ ''</a>'' @
     ''\<newline>            </footer>'' @
     ''\<newline>        </div>'' @
     ''\<newline>    ''\<close>

text \<open>\<^verbatim>\<open>item.analysis || {}\<close>: the object with no property.\<close>

definition empty_analysis :: analysis_obj where
  "empty_analysis =
     \<lparr>sentiment = None, impact_score = None, summary_th = None, summary_en = None\<rparr>"

definition renderNewsCard :: "host \<Rightarrow> news_item \<Rightarrow> string" where
  "renderNewsCard h item =
     (let analysis' = (case analysis item of None \<Rightarrow> empty_analysis | Some a \<Rightarrow> a);
          sentiment' = str_or (sentiment analysis') ''Neutral'';
          impact_score' = num_or h (impact_score analysis') ''N/A'';
          summary = str_or (summary_th analysis')
                      (str_or (summary_en analysis') ''Summary not available.'');
          sentimentClass = ''sentiment-'' @ sentiment';
          publishedDate = toLocaleString h (published item)
      in news_card_markup (source item) (published item) publishedDate (title item) summary
           sentimentClass sentiment' impact_score' (link item))"

definition no_news_message :: string where
  "no_news_message =
     ''No news available at the moment. The worker might be processing data in the background.''"

definition renderNewsFeed :: "host \<Rightarrow> state \<Rightarrow> state" where
  "renderNewsFeed h s =
     (if length (newsData s) = 0
      then renderError no_news_message s
      else s\<lparr>newsContainer_innerHTML := concat (map (renderNewsCard h) (newsData s))\<rparr>)"

definition renderAll :: "host \<Rightarrow> state \<Rightarrow> state" where
  "renderAll h s = renderNewsFeed h (renderStockBar h s)"

section \<open>Feed client\<close>

text \<open>
  An \<^verbatim>\<open>async\<close> function runs up to its first \<^verbatim>\<open>await\<close> when it is called and the rest
  when the awaited request has come back; other events of the page may be handled in
  between. The two parts are separate functions, the second one taking the outcome of
  the request. Nothing is read or written between \<^verbatim>\<open>await fetch(...)\<close> and
  \<^verbatim>\<open>await response.json()\<close>, so the two suspensions are one.
\<close>

definition fetchMainFeed_begin :: "state \<Rightarrow> state" where
  "fetchMainFeed_begin s = s\<lparr>requests := requests s @ [GET ''/api/main_feed'']\<rparr>"

text \<open>The \<^verbatim>\<open>try\<close> block: the error thrown, if any, and the state where it stopped.
  Reading a property of \<^verbatim>\<open>null\<close> or of \<^verbatim>\<open>undefined\<close> throws a \<^verbatim>\<open>TypeError\<close>.\<close>

definition fetchMainFeed_try :: "host \<Rightarrow> fetch_outcome \<Rightarrow> state \<Rightarrow> js_error option \<times> state" where
  "fetchMainFeed_try h outcome s =
     (case outcome of
        Rejected \<Rightarrow> (Some FetchFailed, s)
      | Response ok statusText body \<Rightarrow>
          if \<not> ok then (Some (NotOk statusText), s)
          else (case body of
                  Unparsable \<Rightarrow> (Some JsonSyntaxError, s)
                | JsonNull \<Rightarrow> (Some TypeError, s)
                | JsonObject result \<Rightarrow>
                    if status result = Some ''success''
                    then (case data result of
                            None \<Rightarrow> (Some TypeError, s)
                          | Some d \<Rightarrow>
                              (None, renderAll h (s\<lparr>newsData := news d, stockData := stocks d\<rparr>)))
                    else (None, renderError (str_or (message result) ''Failed to load data.'') s)))"

definition connect_message :: string where
  "connect_message = ''Could not connect to the server. Please try again later.''"

definition fetchMainFeed_resume :: "host \<Rightarrow> fetch_outcome \<Rightarrow> state \<Rightarrow> state" where
  "fetchMainFeed_resume h outcome s =
     (case fetchMainFeed_try h outcome s of
        (None, s') \<Rightarrow> s'
      | (Some error, s') \<Rightarrow>
          renderError connect_message
            (s'\<lparr>console := console s' @ [(''Failed to fetch main feed:'', error)]\<rparr>))"

text \<open>A call of \<^verbatim>\<open>fetchMainFeed\<close> whose request comes back with \<open>outcome\<close>.\<close>

definition fetchMainFeed :: "host \<Rightarrow> fetch_outcome \<Rightarrow> state \<Rightarrow> state" where
  "fetchMainFeed h outcome s = fetchMainFeed_resume h outcome (fetchMainFeed_begin s)"

section \<open>Question client\<close>

text \<open>The part of \<^verbatim>\<open>handleAskQuestion\<close> that runs when it is called: the guard, the busy
  presentation, and the request handed to \<^verbatim>\<open>fetch\<close>.\<close>

definition handleAskQuestion_begin :: "host \<Rightarrow> state \<Rightarrow> state" where
  "handleAskQuestion_begin h s =
     (let question = trim h (qaInput_value s) in
      if question = [] \<or> isAsking s then s
      else s\<lparr>isAsking := True,
             qaButton_disabled := True,
             qaButton_textContent := ''Thinking...'',
             qaAnswerBox_opacity := ''0.5'',
             qaAnswerBox_textContent := ''AI is processing your question...'',
             requests := requests s @ [POST ''/api/ask'' question]\<rparr>)"





section \<open>The ticker as the specification words it\<close>

text \<open>The specification has the sign before the percent change computed from
  \<^verbatim>\<open>percent_change >= 0\<close>; this is that reading, to be compared with \<open>stock_box\<close>.\<close>

definition stock_box_spec :: "host \<Rightarrow> stock_quote \<Rightarrow> string" where
  "stock_box_spec h stock =
     (let changeClass = (if change stock \<ge> 0 then ''positive'' else ''negative'');
          sign = (if change stock \<ge> 0 then ''+'' else '''');
          percent_sign = (if percent_change stock \<ge> 0 then ''+'' else '''')
      in stock_box_markup (symbol stock) (toFixed2 h (price stock)) changeClass
           sign (toFixed2 h (change stock)) percent_sign (toFixed2 h (percent_change stock)))"

section \<open>A host for worked examples\<close>

text \<open>
  The examples below are evaluated on a host that agrees with the built-in functions on
  the values they use: numbers of magnitude below \<open>10\<^sup>2\<^sup>1\<close> for \<^verbatim>\<open>toFixed\<close>, integers in
  that range for the conversion to a string, ASCII strings for \<^verbatim>\<open>trim\<close>, and, for the date,
  one timestamp read in the UTC time zone (any other text is not a date).
\<close>

definition digit :: "nat \<Rightarrow> char" where
  "digit d = ''0123456789'' ! (d mod 10)"

fun decimal :: "nat \<Rightarrow> string" where
  "decimal n = (if n < 10 then [digit n] else decimal (n div 10) @ [digit n])"

text \<open>\<^verbatim>\<open>toFixed(2)\<close>: the nearest multiple of one hundredth, the larger one on a tie, taken on
  the magnitude; the sign is that of the number itself.\<close>

definition toFixed2_dec :: "number \<Rightarrow> string" where
  "toFixed2_dec x =
     (let n = nat \<lfloor>\<bar>x\<bar> * 100 + 1 / 2\<rfloor>
      in (if x < 0 then ''-'' else '''') @ decimal (n div 100) @ ''.'' @
         [digit (n div 10), digit n])"

definition integer_dec :: "number \<Rightarrow> string" where
  "integer_dec x = (if x < 0 then ''-'' else '''') @ decimal (nat \<lfloor>\<bar>x\<bar>\<rfloor>)"

definition is_space :: "char \<Rightarrow> bool" where
  "is_space c = (c \<in> set [CHR 0x09, CHR 0x0A, CHR 0x0B, CHR 0x0C, CHR 0x0D, CHR '' ''])"

definition trim_ascii :: "string \<Rightarrow> string" where
  "trim_ascii x = rev (dropWhile is_space (rev (dropWhile is_space x)))"

definition date_utc :: "string \<Rightarrow> string" where
  "date_utc x = (if x = ''2024-05-01T09:30:00Z'' then ''1 May 2024, 09:30'' else ''Invalid Date'')"

definition example_host :: host where
  "example_host =
     \<lparr>toFixed2 = toFixed2_dec, numberToString = integer_dec,
      toLocaleString = date_utc, trim = trim_ascii\<rparr>"

text \<open>A page at rest: nothing fetched yet, no question in flight, the ask control enabled
  and labelled as the script labels it when a question has been answered.\<close>

definition example_state :: state where
  "example_state =
     \<lparr>newsData = [], stockData = [], isAsking = False,
      stockBarContainer_innerHTML = [], newsContainer_innerHTML = [],
      qaInput_value = [], qaButton_disabled = False, qaButton_textContent = ''Ask AI'',
      qaAnswerBox_opacity = ''1'', qaAnswerBox_textContent = [],
      requests = [], console = [], finally_runs = 0\<rparr>"

text \<open>A story with an analysis, a quote, a page that holds both, and a page on which a
  question has been typed.\<close>

definition example_story :: news_item where
  "example_story =
     \<lparr>source = ''Reuters'', title = ''Markets rally'', link = ''https://example.com/a'',
      published = ''2024-05-01T09:30:00Z'',
      analysis = Some \<lparr>sentiment = Some ''Positive'', impact_score = Some 7,
                        summary_th = None, summary_en = Some ''Stocks rose.''\<rparr>\<rparr>"

definition example_quote :: stock_quote where
  "example_quote = \<lparr>symbol = ''IBM'', price = 120, change = 0, percent_change = 0\<rparr>"

definition example_feed_state :: state where
  "example_feed_state =
     example_state\<lparr>newsData := [example_story], stockData := [(''IBM'', example_quote)]\<rparr>"


section \<open>Evaluation lemmas\<close>

lemma example_host_simps:
  "toFixed2 example_host = toFixed2_dec" "numberToString example_host = integer_dec"
  "toLocaleString example_host = date_utc" "trim example_host = trim_ascii"
  by (simp_all add: example_host_def)

lemma toFixed2_dec_examples:
  "toFixed2_dec 150 = ''150.00''" "toFixed2_dec (3 / 2) = ''1.50''"
  "toFixed2_dec 1 = ''1.00''" "toFixed2_dec 300 = ''300.00''" "toFixed2_dec (- 3) = ''-3.00''"
  "toFixed2_dec (- 1) = ''-1.00''" "toFixed2_dec 120 = ''120.00''" "toFixed2_dec 0 = ''0.00''"
  "toFixed2_dec (1 / 2) = ''0.50''"
  by (simp_all add: toFixed2_dec_def Let_def digit_def)

lemma date_utc_examples:
  "date_utc ''2024-05-01T09:30:00Z'' = ''1 May 2024, 09:30''"
  "date_utc ''yesterday'' = ''Invalid Date''"
  by (simp_all add: date_utc_def)

lemma integer_dec_examples: "integer_dec 7 = ''7''" "integer_dec 0 = ''0''"
  by (simp_all add: integer_dec_def digit_def)

lemma trim_ascii_examples:
  "trim_ascii ''   '' = []"
  "trim_ascii '' What happened to AAPL? '' = ''What happened to AAPL?''"
  by (simp_all add: trim_ascii_def is_space_def)

text \<open>Two fragments that differ in one interpolation only are different texts.\<close>

lemma stock_box_markup_sign_inject:
  "stock_box_markup a b c d e f g = stock_box_markup a b c d e f' g \<longleftrightarrow> f = f'"
  by (simp add: stock_box_markup_def)

lemma error_markup_inject: "error_markup a = error_markup b \<longleftrightarrow> a = b"
  by (simp add: error_markup_def)

section \<open>What the renderers and the question flow leave alone\<close>

lemma renderStockBar_frame:
  "newsData (renderStockBar h s) = newsData s" "stockData (renderStockBar h s) = stockData s"
  "newsContainer_innerHTML (renderStockBar h s) = newsContainer_innerHTML s"
  "console (renderStockBar h s) = console s"
  by (simp_all add: renderStockBar_def Let_def)

lemma renderStockBar_idem: "renderStockBar h (renderStockBar h s) = renderStockBar h s"
  by (simp add: renderStockBar_def Let_def)

lemma renderNewsFeed_idem: "renderNewsFeed h (renderNewsFeed h s) = renderNewsFeed h s"
  by (simp add: renderNewsFeed_def renderError_def)

lemma render_commute:
  "renderStockBar h (renderNewsFeed h s) = renderNewsFeed h (renderStockBar h s)"
  by (simp add: renderStockBar_def renderNewsFeed_def renderError_def Let_def)


section \<open>Ticker renderer\<close>

text \<open>
  C1 (as amended). The claim has the sign before the percent change computed from
  \<^verbatim>\<open>percent_change >= 0\<close>, independently of the change field. The script computes one
  \<^verbatim>\<open>sign\<close> from \<^verbatim>\<open>stock.change >= 0\<close> and interpolates it twice. What holds: the prefix
  before the percent change is the prefix before the change, \<open>+\<close> exactly when
  \<open>change \<ge> 0\<close>; the fragment is the one the claim describes exactly for the quotes whose
  \<open>change\<close> and \<open>percent_change\<close> lie on the same side of the comparison with zero.
\<close>

theorem ticker_percent_sign_follows_change:
  "stock_box h q =
     stock_box_markup (symbol q) (toFixed2 h (price q))
       (if 0 \<le> change q then ''positive'' else ''negative'')
       (if 0 \<le> change q then ''+'' else '''') (toFixed2 h (change q))
       (if 0 \<le> change q then ''+'' else '''') (toFixed2 h (percent_change q))
   \<and> (stock_box h q = stock_box_spec h q \<longleftrightarrow> (0 \<le> change q \<longleftrightarrow> 0 \<le> percent_change q))"
  by (simp add: stock_box_def stock_box_spec_def Let_def stock_box_markup_sign_inject)

theorem ticker_percent_sign_follows_change_witness:
  "stock_box example_host \<lparr>symbol = ''AAPL'', price = 150, change = 3 / 2, percent_change = 1\<rparr> =
     stock_box_markup ''AAPL'' ''150.00'' ''positive'' ''+'' ''1.50'' ''+'' ''1.00''
   \<and> stock_box example_host \<lparr>symbol = ''AAPL'', price = 150, change = 3 / 2, percent_change = 1\<rparr> =
     stock_box_spec example_host
       \<lparr>symbol = ''AAPL'', price = 150, change = 3 / 2, percent_change = 1\<rparr>"
proof -
  have agree: "(0::real) \<le> 3 / 2 \<longleftrightarrow> (0::real) \<le> 1" by simp
  note inst = ticker_percent_sign_follows_change
    [of example_host "\<lparr>symbol = ''AAPL'', price = 150, change = 3 / 2, percent_change = 1\<rparr>"]
  from inst [THEN conjunct1]
  have 1: "stock_box example_host
             \<lparr>symbol = ''AAPL'', price = 150, change = 3 / 2, percent_change = 1\<rparr> =
           stock_box_markup ''AAPL'' ''150.00'' ''positive'' ''+'' ''1.50'' ''+'' ''1.00''"
    by (simp add: example_host_simps toFixed2_dec_examples)
  from inst [THEN conjunct2] agree
  have 2: "stock_box example_host
             \<lparr>symbol = ''AAPL'', price = 150, change = 3 / 2, percent_change = 1\<rparr> =
           stock_box_spec example_host
             \<lparr>symbol = ''AAPL'', price = 150, change = 3 / 2, percent_change = 1\<rparr>"
    by simp
  from 1 2 show ?thesis by (rule conjI)
qed

text \<open>
  C1 as stated fails for a quote whose change is negative and whose percent change is not:
  \<open>percent_change \<ge> 0\<close>, and yet no \<open>+\<close> stands before \<open>0.50\<close>.
\<close>

theorem ticker_percent_sign_counterexample:
  "0 \<le> percent_change \<lparr>symbol = ''AAPL'', price = 150, change = - 1, percent_change = 1 / 2\<rparr>
   \<and> stock_box example_host
        \<lparr>symbol = ''AAPL'', price = 150, change = - 1, percent_change = 1 / 2\<rparr> =
       stock_box_markup ''AAPL'' ''150.00'' ''negative'' [] ''-1.00'' [] ''0.50''
   \<and> stock_box example_host
        \<lparr>symbol = ''AAPL'', price = 150, change = - 1, percent_change = 1 / 2\<rparr> \<noteq>
       stock_box_spec example_host
        \<lparr>symbol = ''AAPL'', price = 150, change = - 1, percent_change = 1 / 2\<rparr>"
  by (simp add: stock_box_def stock_box_spec_def Let_def example_host_simps toFixed2_dec_examples
        stock_box_markup_sign_inject)

text \<open>
  C2. For a quote with \<open>change \<ge> 0\<close> the change is written after an explicit \<open>+\<close> and the
  class of the span is \<open>positive\<close>; for a quote with \<open>change < 0\<close> nothing is written before
  the formatted change and the class is \<open>negative\<close>; a change of zero is rendered as
  positive. The fragment of a quote is given in full.
\<close>

theorem ticker_change_sign_and_class:
  \<open>(0 \<le> change q \<longrightarrow>
      stock_box h q =
        ''\<newline>            <div class="stock-box">'' @
        ''\<newline>                <span class="symbol">'' @ symbol q @ ''</span>'' @
        ''\<newline>                <span class="price">'' @ toFixed2 h (price q) @ ''</span>'' @
        ''\<newline>                <span class="change positive">'' @
        ''\<newline>                    +'' @ toFixed2 h (change q) @
          '' (+'' @ toFixed2 h (percent_change q) @ ''%)'' @
        ''\<newline>                </span>'' @
        ''\<newline>            </div>'' @
        ''\<newline>        '')
   \<and> (change q' < 0 \<longrightarrow>
      stock_box h q' =
        ''\<newline>            <div class="stock-box">'' @
        ''\<newline>                <span class="symbol">'' @ symbol q' @ ''</span>'' @
        ''\<newline>                <span class="price">'' @ toFixed2 h (price q') @ ''</span>'' @
        ''\<newline>                <span class="change negative">'' @
        ''\<newline>                    '' @ toFixed2 h (change q') @
          '' ('' @ toFixed2 h (percent_change q') @ ''%)'' @
        ''\<newline>                </span>'' @
        ''\<newline>            </div>'' @
        ''\<newline>        '')
   \<and> (change q0 = 0 \<longrightarrow>
      stock_box h q0 =
        ''\<newline>            <div class="stock-box">'' @
        ''\<newline>                <span class="symbol">'' @ symbol q0 @ ''</span>'' @
        ''\<newline>                <span class="price">'' @ toFixed2 h (price q0) @ ''</span>'' @
        ''\<newline>                <span class="change positive">'' @
        ''\<newline>                    +'' @ toFixed2 h 0 @
          '' (+'' @ toFixed2 h (percent_change q0) @ ''%)'' @
        ''\<newline>                </span>'' @
        ''\<newline>            </div>'' @
        ''\<newline>        '')\<close>
  by (simp add: stock_box_def Let_def stock_box_markup_def)

theorem ticker_change_sign_and_class_witness:
  \<open>stock_box example_host \<lparr>symbol = ''AAPL'', price = 150, change = 3 / 2, percent_change = 1\<rparr> =
     ''\<newline>            <div class="stock-box">'' @
     ''\<newline>                <span class="symbol">AAPL</span>'' @
     ''\<newline>                <span class="price">150.00</span>'' @
     ''\<newline>                <span class="change positive">'' @
     ''\<newline>                    +1.50 (+1.00%)'' @
     ''\<newline>                </span>'' @
     ''\<newline>            </div>'' @
     ''\<newline>        ''
   \<and> stock_box example_host \<lparr>symbol = ''MSFT'', price = 300, change = - 3, percent_change = - 1\<rparr> =
     ''\<newline>            <div class="stock-box">'' @
     ''\<newline>                <span class="symbol">MSFT</span>'' @
     ''\<newline>                <span class="price">300.00</span>'' @
     ''\<newline>                <span class="change negative">'' @
     ''\<newline>                    -3.00 (-1.00%)'' @
     ''\<newline>                </span>'' @
     ''\<newline>            </div>'' @
     ''\<newline>        ''
   \<and> stock_box example_host \<lparr>symbol = ''IBM'', price = 120, change = 0, percent_change = 0\<rparr> =
     ''\<newline>            <div class="stock-box">'' @
     ''\<newline>                <span class="symbol">IBM</span>'' @
     ''\<newline>                <span class="price">120.00</span>'' @
     ''\<newline>                <span class="change positive">'' @
     ''\<newline>                    +0.00 (+0.00%)'' @
     ''\<newline>                </span>'' @
     ''\<newline>            </div>'' @
     ''\<newline>        ''\<close>
  using ticker_change_sign_and_class
      [of "\<lparr>symbol = ''AAPL'', price = 150, change = 3 / 2, percent_change = 1\<rparr>" example_host
          "\<lparr>symbol = ''MSFT'', price = 300, change = - 3, percent_change = - 1\<rparr>"
          "\<lparr>symbol = ''IBM'', price = 120, change = 0, percent_change = 0\<rparr>"]
  by (simp add: example_host_simps toFixed2_dec_examples)

text \<open>
  C3. For a stock mapping that is not empty, the ticker fragment is the wrapper element
  around the concatenation of the per-quote fragments written twice, one copy right
  after the other, and nothing else; the two copies are the same text.
\<close>

theorem ticker_duplicated:
  "stockData s \<noteq> [] \<Longrightarrow>
   stockBarContainer_innerHTML (renderStockBar h s) =
     ''<div class=\"stock-ticker-inner\">'' @
     concat (map (\<lambda>(symbol, stock). stock_box h stock) (stockData s)) @
     concat (map (\<lambda>(symbol, stock). stock_box h stock) (stockData s)) @
     ''</div>''"
  by (simp add: renderStockBar_def Let_def)

theorem ticker_duplicated_witness:
  "stockData (example_state\<lparr>stockData :=
       [(''AAPL'', \<lparr>symbol = ''AAPL'', price = 150, change = 3 / 2, percent_change = 1\<rparr>),
        (''MSFT'', \<lparr>symbol = ''MSFT'', price = 300, change = - 3, percent_change = - 1\<rparr>)]\<rparr>) \<noteq> []
   \<and> stockBarContainer_innerHTML (renderStockBar example_host (example_state\<lparr>stockData :=
       [(''AAPL'', \<lparr>symbol = ''AAPL'', price = 150, change = 3 / 2, percent_change = 1\<rparr>),
        (''MSFT'', \<lparr>symbol = ''MSFT'', price = 300, change = - 3, percent_change = - 1\<rparr>)]\<rparr>)) =
     ''<div class=\"stock-ticker-inner\">'' @
     (stock_box_markup ''AAPL'' ''150.00'' ''positive'' ''+'' ''1.50'' ''+'' ''1.00'' @
      stock_box_markup ''MSFT'' ''300.00'' ''negative'' [] ''-3.00'' [] ''-1.00'') @
     (stock_box_markup ''AAPL'' ''150.00'' ''positive'' ''+'' ''1.50'' ''+'' ''1.00'' @
      stock_box_markup ''MSFT'' ''300.00'' ''negative'' [] ''-3.00'' [] ''-1.00'') @
     ''</div>''"
  using ticker_duplicated [of "example_state\<lparr>stockData :=
       [(''AAPL'', \<lparr>symbol = ''AAPL'', price = 150, change = 3 / 2, percent_change = 1\<rparr>),
        (''MSFT'', \<lparr>symbol = ''MSFT'', price = 300, change = - 3, percent_change = - 1\<rparr>)]\<rparr>"
      example_host]
  by (simp add: stock_box_def Let_def example_host_simps toFixed2_dec_examples)

section \<open>Feed renderer\<close>

text \<open>
  C4. A news item without an analysis object is rendered as a card with sentiment
  \<open>Neutral\<close>, impact \<open>N/A\<close> and the summary \<open>Summary not available.\<close>; \<open>renderNewsCard\<close> is
  a total function, so no item makes it fail. With an analysis object, every sub-field
  that is missing is replaced by the same defaults, and the summary is the first
  non-empty text among the Thai summary, the English summary and the fallback. The card
  is given in full.
\<close>

theorem card_defaults:
  \<open>(analysis item = None \<longrightarrow>
      renderNewsCard h item =
        ''\<newline>        <div class="story-card">'' @
        ''\<newline>            <header class="card-header">'' @
        ''\<newline>                <span class="card-source">'' @ source item @ ''</span>'' @
        ''\<newline>                <time datetime="'' @ published item @ ''">'' @
          toLocaleString h (published item) @ ''</time>'' @
        ''\<newline>            </header>'' @
        ''\<newline>            <h2 class="card-title">'' @ title item @ ''</h2>'' @
        ''\<newline>            <p class="card-summary">Summary not available.</p>'' @
        ''\<newline>            <footer class="card-footer">'' @
        ''\<newline>                <div class="sentiment-badge sentiment-Neutral">Neutral</div>'' @
        ''\<newline>                <div class="impact-score">Impact: N/A/10</div>'' @
        ''\<newline>                <a href="'' @ link item @
          ''" target="_blank" rel="noopener noreferrer" class="source-link">Read Source '' @
          [CHR 0xE2, CHR 0x86, CHR 0x92] @ ''</a>'' @
        ''\<newline>            </footer>'' @
        ''\<newline>        </div>'' @
        ''\<newline>    '')
   \<and> (analysis item' = Some a \<longrightarrow>
      renderNewsCard h item' =
        ''\<newline>        <div class="story-card">'' @
        ''\<newline>            <header class="card-header">'' @
        ''\<newline>                <span class="card-source">'' @ source item' @ ''</span>'' @
        ''\<newline>                <time datetime="'' @ published item' @ ''">'' @
          toLocaleString h (published item') @ ''</time>'' @
        ''\<newline>            </header>'' @
        ''\<newline>            <h2 class="card-title">'' @ title item' @ ''</h2>'' @
        ''\<newline>            <p class="card-summary">'' @
          (case filter (\<lambda>v. v \<noteq> [])
                  (map (\<lambda>x. case x of None \<Rightarrow> [] | Some v \<Rightarrow> v) [summary_th a, summary_en a]) of
             [] \<Rightarrow> ''Summary not available.'' | v # _ \<Rightarrow> v) @ ''</p>'' @
        ''\<newline>            <footer class="card-footer">'' @
        ''\<newline>                <div class="sentiment-badge sentiment-'' @
          (case sentiment a of None \<Rightarrow> ''Neutral'' | Some v \<Rightarrow> if v = [] then ''Neutral'' else v) @
          ''">'' @
          (case sentiment a of None \<Rightarrow> ''Neutral'' | Some v \<Rightarrow> if v = [] then ''Neutral'' else v) @
          ''</div>'' @
        ''\<newline>                <div class="impact-score">Impact: '' @
          (case impact_score a of None \<Rightarrow> ''N/A''
           | Some n \<Rightarrow> if n = 0 then ''N/A'' else numberToString h n) @ ''/10</div>'' @
        ''\<newline>                <a href="'' @ link item' @
          ''" target="_blank" rel="noopener noreferrer" class="source-link">Read Source '' @
          [CHR 0xE2, CHR 0x86, CHR 0x92] @ ''</a>'' @
        ''\<newline>            </footer>'' @
        ''\<newline>        </div>'' @
        ''\<newline>    '')\<close>
  by (simp add: renderNewsCard_def Let_def empty_analysis_def str_or_def num_or_def
        news_card_markup_def split: option.splits)

theorem card_defaults_witness:
  \<open>renderNewsCard example_host
     \<lparr>source = ''Reuters'', title = ''Markets rally'', link = ''https://example.com/a'',
      published = ''2024-05-01T09:30:00Z'', analysis = None\<rparr> =
     ''\<newline>        <div class="story-card">'' @
     ''\<newline>            <header class="card-header">'' @
     ''\<newline>                <span class="card-source">Reuters</span>'' @
     ''\<newline>                <time datetime="2024-05-01T09:30:00Z">1 May 2024, 09:30</time>'' @
     ''\<newline>            </header>'' @
     ''\<newline>            <h2 class="card-title">Markets rally</h2>'' @
     ''\<newline>            <p class="card-summary">Summary not available.</p>'' @
     ''\<newline>            <footer class="card-footer">'' @
     ''\<newline>                <div class="sentiment-badge sentiment-Neutral">Neutral</div>'' @
     ''\<newline>                <div class="impact-score">Impact: N/A/10</div>'' @
     ''\<newline>                <a href="https://example.com/a'' @
       ''" target="_blank" rel="noopener noreferrer" class="source-link">Read Source '' @
       [CHR 0xE2, CHR 0x86, CHR 0x92] @ ''</a>'' @
     ''\<newline>            </footer>'' @
     ''\<newline>        </div>'' @
     ''\<newline>    ''
   \<and> renderNewsCard example_host
     \<lparr>source = ''AP'', title = ''Rates held'', link = ''https://example.com/b'',
      published = ''yesterday'',
      analysis = Some \<lparr>sentiment = Some ''Positive'', impact_score = None,
                        summary_th = None, summary_en = Some ''Stocks rose.''\<rparr>\<rparr> =
     ''\<newline>        <div class="story-card">'' @
     ''\<newline>            <header class="card-header">'' @
     ''\<newline>                <span class="card-source">AP</span>'' @
     ''\<newline>                <time datetime="yesterday">Invalid Date</time>'' @
     ''\<newline>            </header>'' @
     ''\<newline>            <h2 class="card-title">Rates held</h2>'' @
     ''\<newline>            <p class="card-summary">Stocks rose.</p>'' @
     ''\<newline>            <footer class="card-footer">'' @
     ''\<newline>                <div class="sentiment-badge sentiment-Positive">Positive</div>'' @
     ''\<newline>                <div class="impact-score">Impact: N/A/10</div>'' @
     ''\<newline>                <a href="https://example.com/b'' @
       ''" target="_blank" rel="noopener noreferrer" class="source-link">Read Source '' @
       [CHR 0xE2, CHR 0x86, CHR 0x92] @ ''</a>'' @
     ''\<newline>            </footer>'' @
     ''\<newline>        </div>'' @
     ''\<newline>    ''\<close>
  using card_defaults
    [of "\<lparr>source = ''Reuters'', title = ''Markets rally'', link = ''https://example.com/a'',
          published = ''2024-05-01T09:30:00Z'', analysis = None\<rparr>"
        example_host
        "\<lparr>source = ''AP'', title = ''Rates held'', link = ''https://example.com/b'',
          published = ''yesterday'',
          analysis = Some \<lparr>sentiment = Some ''Positive'', impact_score = None,
                            summary_th = None, summary_en = Some ''Stocks rose.''\<rparr>\<rparr>"
        "\<lparr>sentiment = Some ''Positive'', impact_score = None,
          summary_th = None, summary_en = Some ''Stocks rose.''\<rparr>"]
  by (simp add: example_host_simps date_utc_examples)

text \<open>
  C10. When the analysis is present and its impact score is the number 0, the impact
  field of the card reads \<open>N/A\<close> and not the text of the number; when its sentiment is the
  empty string, the badge reads \<open>Neutral\<close> and has the class of that sentiment. The
  defaults are taken for every falsy value. The card is given in full.
\<close>

theorem card_falsy_defaults:
  \<open>(analysis item = Some a \<and> impact_score a = Some 0 \<longrightarrow>
      renderNewsCard h item =
        ''\<newline>        <div class="story-card">'' @
        ''\<newline>            <header class="card-header">'' @
        ''\<newline>                <span class="card-source">'' @ source item @ ''</span>'' @
        ''\<newline>                <time datetime="'' @ published item @ ''">'' @
          toLocaleString h (published item) @ ''</time>'' @
        ''\<newline>            </header>'' @
        ''\<newline>            <h2 class="card-title">'' @ title item @ ''</h2>'' @
        ''\<newline>            <p class="card-summary">'' @
          str_or (summary_th a) (str_or (summary_en a) ''Summary not available.'') @ ''</p>'' @
        ''\<newline>            <footer class="card-footer">'' @
        ''\<newline>                <div class="sentiment-badge sentiment-'' @
          str_or (sentiment a) ''Neutral'' @ ''">'' @ str_or (sentiment a) ''Neutral'' @
          ''</div>'' @
        ''\<newline>                <div class="impact-score">Impact: N/A/10</div>'' @
        ''\<newline>                <a href="'' @ link item @
          ''" target="_blank" rel="noopener noreferrer" class="source-link">Read Source '' @
          [CHR 0xE2, CHR 0x86, CHR 0x92] @ ''</a>'' @
        ''\<newline>            </footer>'' @
        ''\<newline>        </div>'' @
        ''\<newline>    '')
   \<and> (analysis item' = Some a' \<and> sentiment a' = Some [] \<longrightarrow>
      renderNewsCard h item' =
        ''\<newline>        <div class="story-card">'' @
        ''\<newline>            <header class="card-header">'' @
        ''\<newline>                <span class="card-source">'' @ source item' @ ''</span>'' @
        ''\<newline>                <time datetime="'' @ published item' @ ''">'' @
          toLocaleString h (published item') @ ''</time>'' @
        ''\<newline>            </header>'' @
        ''\<newline>            <h2 class="card-title">'' @ title item' @ ''</h2>'' @
        ''\<newline>            <p class="card-summary">'' @
          str_or (summary_th a') (str_or (summary_en a') ''Summary not available.'') @
          ''</p>'' @
        ''\<newline>            <footer class="card-footer">'' @
        ''\<newline>                <div class="sentiment-badge sentiment-Neutral">Neutral</div>'' @
        ''\<newline>                <div class="impact-score">Impact: '' @
          num_or h (impact_score a') ''N/A'' @ ''/10</div>'' @
        ''\<newline>                <a href="'' @ link item' @
          ''" target="_blank" rel="noopener noreferrer" class="source-link">Read Source '' @
          [CHR 0xE2, CHR 0x86, CHR 0x92] @ ''</a>'' @
        ''\<newline>            </footer>'' @
        ''\<newline>        </div>'' @
        ''\<newline>    '')\<close>
  by (simp add: renderNewsCard_def Let_def str_or_def num_or_def news_card_markup_def)

theorem card_falsy_defaults_witness:
  \<open>renderNewsCard example_host
     \<lparr>source = ''Reuters'', title = ''Markets rally'', link = ''https://example.com/a'',
      published = ''2024-05-01T09:30:00Z'',
      analysis = Some \<lparr>sentiment = Some ''Negative'', impact_score = Some 0,
                        summary_th = Some [], summary_en = Some ''Stocks fell.''\<rparr>\<rparr> =
     ''\<newline>        <div class="story-card">'' @
     ''\<newline>            <header class="card-header">'' @
     ''\<newline>                <span class="card-source">Reuters</span>'' @
     ''\<newline>                <time datetime="2024-05-01T09:30:00Z">1 May 2024, 09:30</time>'' @
     ''\<newline>            </header>'' @
     ''\<newline>            <h2 class="card-title">Markets rally</h2>'' @
     ''\<newline>            <p class="card-summary">Stocks fell.</p>'' @
     ''\<newline>            <footer class="card-footer">'' @
     ''\<newline>                <div class="sentiment-badge sentiment-Negative">Negative</div>'' @
     ''\<newline>                <div class="impact-score">Impact: N/A/10</div>'' @
     ''\<newline>                <a href="https://example.com/a'' @
       ''" target="_blank" rel="noopener noreferrer" class="source-link">Read Source '' @
       [CHR 0xE2, CHR 0x86, CHR 0x92] @ ''</a>'' @
     ''\<newline>            </footer>'' @
     ''\<newline>        </div>'' @
     ''\<newline>    ''
   \<and> numberToString example_host 0 = ''0''
   \<and> renderNewsCard example_host
     \<lparr>source = ''AP'', title = ''Rates held'', link = ''https://example.com/b'',
      published = ''yesterday'',
      analysis = Some \<lparr>sentiment = Some [], impact_score = Some 7,
                        summary_th = None, summary_en = None\<rparr>\<rparr> =
     ''\<newline>        <div class="story-card">'' @
     ''\<newline>            <header class="card-header">'' @
     ''\<newline>                <span class="card-source">AP</span>'' @
     ''\<newline>                <time datetime="yesterday">Invalid Date</time>'' @
     ''\<newline>            </header>'' @
     ''\<newline>            <h2 class="card-title">Rates held</h2>'' @
     ''\<newline>            <p class="card-summary">Summary not available.</p>'' @
     ''\<newline>            <footer class="card-footer">'' @
     ''\<newline>                <div class="sentiment-badge sentiment-Neutral">Neutral</div>'' @
     ''\<newline>                <div class="impact-score">Impact: 7/10</div>'' @
     ''\<newline>                <a href="https://example.com/b'' @
       ''" target="_blank" rel="noopener noreferrer" class="source-link">Read Source '' @
       [CHR 0xE2, CHR 0x86, CHR 0x92] @ ''</a>'' @
     ''\<newline>            </footer>'' @
     ''\<newline>        </div>'' @
     ''\<newline>    ''\<close>
  using card_falsy_defaults
    [of "\<lparr>source = ''Reuters'', title = ''Markets rally'', link = ''https://example.com/a'',
          published = ''2024-05-01T09:30:00Z'',
          analysis = Some \<lparr>sentiment = Some ''Negative'', impact_score = Some 0,
                            summary_th = Some [], summary_en = Some ''Stocks fell.''\<rparr>\<rparr>"
        "\<lparr>sentiment = Some ''Negative'', impact_score = Some 0,
          summary_th = Some [], summary_en = Some ''Stocks fell.''\<rparr>"
        example_host
        "\<lparr>source = ''AP'', title = ''Rates held'', link = ''https://example.com/b'',
          published = ''yesterday'',
          analysis = Some \<lparr>sentiment = Some [], impact_score = Some 7,
                            summary_th = None, summary_en = None\<rparr>\<rparr>"
        "\<lparr>sentiment = Some [], impact_score = Some 7, summary_th = None, summary_en = None\<rparr>"]
  by (simp add: example_host_simps date_utc_examples integer_dec_examples str_or_def num_or_def)

text \<open>
  C8. When the news sequence is empty the feed area receives the error-view fragment with
  the message about background processing. A feed answer with status \<open>success\<close> and no
  news throws nothing in the \<^verbatim>\<open>try\<close> block, so the \<^verbatim>\<open>catch\<close> block does not run and nothing
  is logged; the ticker is rendered from the stock mapping of the answer. The fragment
  written to the feed area is given in full.
\<close>

theorem empty_feed_view:
  \<open>(newsData s = [] \<longrightarrow>
      newsContainer_innerHTML (renderNewsFeed h s) =
        ''\<newline>        <div class="error-screen">'' @
        ''\<newline>            <h2>Something went wrong</h2>'' @
        ''\<newline>            <p>No news available at the moment. '' @
          ''The worker might be processing data in the background.</p>'' @
        ''\<newline>        </div>'' @
        ''\<newline>    ''
      \<and> newsContainer_innerHTML (renderAll h s) = newsContainer_innerHTML (renderNewsFeed h s)
      \<and> stockBarContainer_innerHTML (renderAll h s) =
          stockBarContainer_innerHTML (renderStockBar h s))
   \<and> (status result = Some ''success'' \<and> data result = Some d \<and> news d = [] \<longrightarrow>
      fst (fetchMainFeed_try h (Response True statusText (JsonObject result))
             (fetchMainFeed_begin t)) = None
      \<and> console (fetchMainFeed h (Response True statusText (JsonObject result)) t) = console t
      \<and> newsContainer_innerHTML
          (fetchMainFeed h (Response True statusText (JsonObject result)) t) =
        ''\<newline>        <div class="error-screen">'' @
        ''\<newline>            <h2>Something went wrong</h2>'' @
        ''\<newline>            <p>No news available at the moment. '' @
          ''The worker might be processing data in the background.</p>'' @
        ''\<newline>        </div>'' @
        ''\<newline>    ''
      \<and> stockBarContainer_innerHTML
          (fetchMainFeed h (Response True statusText (JsonObject result)) t) =
        stockBarContainer_innerHTML (renderStockBar h (t\<lparr>stockData := stocks d\<rparr>)))\<close>
proof (intro conjI impI)
  assume "newsData s = []"
  then show \<open>newsContainer_innerHTML (renderNewsFeed h s) =
        ''\<newline>        <div class="error-screen">'' @
        ''\<newline>            <h2>Something went wrong</h2>'' @
        ''\<newline>            <p>No news available at the moment. '' @
          ''The worker might be processing data in the background.</p>'' @
        ''\<newline>        </div>'' @
        ''\<newline>    ''\<close>
    by (simp add: renderNewsFeed_def renderError_def no_news_message_def error_markup_def)
next
  assume "newsData s = []"
  then show "newsContainer_innerHTML (renderAll h s) = newsContainer_innerHTML (renderNewsFeed h s)"
    by (simp add: renderAll_def renderNewsFeed_def renderError_def renderStockBar_frame)
next
  show "stockBarContainer_innerHTML (renderAll h s) = stockBarContainer_innerHTML (renderStockBar h s)"
    by (simp add: renderAll_def renderNewsFeed_def renderError_def)
next
  assume ok: "status result = Some ''success'' \<and> data result = Some d \<and> news d = []"
  then show "fst (fetchMainFeed_try h (Response True statusText (JsonObject result))
             (fetchMainFeed_begin t)) = None"
    by (simp add: fetchMainFeed_try_def)
next
  assume ok: "status result = Some ''success'' \<and> data result = Some d \<and> news d = []"
  then show "console (fetchMainFeed h (Response True statusText (JsonObject result)) t) = console t"
    by (simp add: fetchMainFeed_def fetchMainFeed_begin_def fetchMainFeed_resume_def
          fetchMainFeed_try_def renderAll_def renderNewsFeed_def renderError_def
          renderStockBar_frame)
next
  assume ok: "status result = Some ''success'' \<and> data result = Some d \<and> news d = []"
  then show \<open>newsContainer_innerHTML
          (fetchMainFeed h (Response True statusText (JsonObject result)) t) =
        ''\<newline>        <div class="error-screen">'' @
        ''\<newline>            <h2>Something went wrong</h2>'' @
        ''\<newline>            <p>No news available at the moment. '' @
          ''The worker might be processing data in the background.</p>'' @
        ''\<newline>        </div>'' @
        ''\<newline>    ''\<close>
    by (simp add: fetchMainFeed_def fetchMainFeed_begin_def fetchMainFeed_resume_def
          fetchMainFeed_try_def renderAll_def renderNewsFeed_def renderError_def
          renderStockBar_frame no_news_message_def error_markup_def)
next
  assume ok: "status result = Some ''success'' \<and> data result = Some d \<and> news d = []"
  then show "stockBarContainer_innerHTML
          (fetchMainFeed h (Response True statusText (JsonObject result)) t) =
        stockBarContainer_innerHTML (renderStockBar h (t\<lparr>stockData := stocks d\<rparr>))"
    by (simp add: fetchMainFeed_def fetchMainFeed_begin_def fetchMainFeed_resume_def
          fetchMainFeed_try_def renderAll_def renderNewsFeed_def renderError_def
          renderStockBar_def Let_def)
qed

theorem empty_feed_view_witness:
  \<open>newsContainer_innerHTML (renderAll example_host example_state) =
     ''\<newline>        <div class="error-screen">'' @
     ''\<newline>            <h2>Something went wrong</h2>'' @
     ''\<newline>            <p>No news available at the moment. '' @
       ''The worker might be processing data in the background.</p>'' @
     ''\<newline>        </div>'' @
     ''\<newline>    ''
   \<and> console
     (fetchMainFeed example_host
        (Response True ''OK''
           (JsonObject \<lparr>status = Some ''success'', message = None, answer = None,
              data = Some \<lparr>news = [], stocks = [(''IBM'', example_quote)]\<rparr>\<rparr>))
        example_feed_state) = []
   \<and> newsContainer_innerHTML
     (fetchMainFeed example_host
        (Response True ''OK''
           (JsonObject \<lparr>status = Some ''success'', message = None, answer = None,
              data = Some \<lparr>news = [], stocks = [(''IBM'', example_quote)]\<rparr>\<rparr>))
        example_feed_state) =
     ''\<newline>        <div class="error-screen">'' @
     ''\<newline>            <h2>Something went wrong</h2>'' @
     ''\<newline>            <p>No news available at the moment. '' @
       ''The worker might be processing data in the background.</p>'' @
     ''\<newline>        </div>'' @
     ''\<newline>    ''
   \<and> stockBarContainer_innerHTML
     (fetchMainFeed example_host
        (Response True ''OK''
           (JsonObject \<lparr>status = Some ''success'', message = None, answer = None,
              data = Some \<lparr>news = [], stocks = [(''IBM'', example_quote)]\<rparr>\<rparr>))
        example_feed_state) =
     ''<div class="stock-ticker-inner">'' @
     ''\<newline>            <div class="stock-box">'' @
     ''\<newline>                <span class="symbol">IBM</span>'' @
     ''\<newline>                <span class="price">120.00</span>'' @
     ''\<newline>                <span class="change positive">'' @
     ''\<newline>                    +0.00 (+0.00%)'' @
     ''\<newline>                </span>'' @
     ''\<newline>            </div>'' @
     ''\<newline>        '' @
     ''\<newline>            <div class="stock-box">'' @
     ''\<newline>                <span class="symbol">IBM</span>'' @
     ''\<newline>                <span class="price">120.00</span>'' @
     ''\<newline>                <span class="change positive">'' @
     ''\<newline>                    +0.00 (+0.00%)'' @
     ''\<newline>                </span>'' @
     ''\<newline>            </div>'' @
     ''\<newline>        '' @
     ''</div>''\<close>
proof -
  have e: "newsData example_state = []" "console example_feed_state = []"
    by (simp_all add: example_state_def example_feed_state_def)
  have r: \<open>stockBarContainer_innerHTML
             (renderStockBar example_host
                (example_feed_state\<lparr>stockData := [(''IBM'', example_quote)]\<rparr>)) =
     ''<div class="stock-ticker-inner">'' @
     ''\<newline>            <div class="stock-box">'' @
     ''\<newline>                <span class="symbol">IBM</span>'' @
     ''\<newline>                <span class="price">120.00</span>'' @
     ''\<newline>                <span class="change positive">'' @
     ''\<newline>                    +0.00 (+0.00%)'' @
     ''\<newline>                </span>'' @
     ''\<newline>            </div>'' @
     ''\<newline>        '' @
     ''\<newline>            <div class="stock-box">'' @
     ''\<newline>                <span class="symbol">IBM</span>'' @
     ''\<newline>                <span class="price">120.00</span>'' @
     ''\<newline>                <span class="change positive">'' @
     ''\<newline>                    +0.00 (+0.00%)'' @
     ''\<newline>                </span>'' @
     ''\<newline>            </div>'' @
     ''\<newline>        '' @
     ''</div>''\<close>
    by (simp add: renderStockBar_def stock_box_def stock_box_markup_def Let_def
          example_quote_def example_host_simps toFixed2_dec_examples)
  from empty_feed_view
    [of example_state example_host
        "\<lparr>status = Some ''success'', message = None, answer = None,
          data = Some \<lparr>news = [], stocks = [(''IBM'', example_quote)]\<rparr>\<rparr>"
        "\<lparr>news = [], stocks = [(''IBM'', example_quote)]\<rparr>"
        "''OK''" example_feed_state]
    e r
  show ?thesis by simp
qed

text \<open>
  C9. Rendering writes the two containers from the news sequence and the stock mapping
  alone: each renderer, run a second time, leaves the page as the first run left it, and
  two pages holding the same news and stocks get the same two fragments, whatever else
  differs between them. The host's date formatting is a function of the item's
  \<open>published\<close> text, as the script calls it.
\<close>

theorem rendering_idempotent:
  "renderStockBar h (renderStockBar h s) = renderStockBar h s
   \<and> renderNewsFeed h (renderNewsFeed h s) = renderNewsFeed h s
   \<and> renderAll h (renderAll h s) = renderAll h s
   \<and> (newsData s = newsData t \<and> stockData s = stockData t \<longrightarrow>
        stockBarContainer_innerHTML (renderAll h s) = stockBarContainer_innerHTML (renderAll h t)
        \<and> newsContainer_innerHTML (renderAll h s) = newsContainer_innerHTML (renderAll h t))"
proof -
  have "renderAll h (renderAll h s) = renderAll h s"
    by (simp add: renderAll_def render_commute renderStockBar_idem renderNewsFeed_idem)
  moreover have "newsData s = newsData t \<and> stockData s = stockData t \<longrightarrow>
        stockBarContainer_innerHTML (renderAll h s) = stockBarContainer_innerHTML (renderAll h t)
        \<and> newsContainer_innerHTML (renderAll h s) = newsContainer_innerHTML (renderAll h t)"
    by (simp add: renderAll_def renderNewsFeed_def renderError_def renderStockBar_def Let_def)
  ultimately show ?thesis
    by (simp add: renderStockBar_idem renderNewsFeed_idem)
qed

text \<open>
  The page of the example holds one story and one quote; its containers hold the text
  \<open>stale\<close> before the first run. After one run and after two runs the feed area is the card
  of the story, with the date made from its \<open>published\<close> field, and the ticker is the box
  of the quote, twice.
\<close>

theorem rendering_idempotent_witness:
  \<open>newsContainer_innerHTML
     (renderAll example_host
        (renderAll example_host
           (example_feed_state\<lparr>newsContainer_innerHTML := ''stale'',
              stockBarContainer_innerHTML := ''stale'', finally_runs := 3\<rparr>))) =
     ''\<newline>        <div class="story-card">'' @
     ''\<newline>            <header class="card-header">'' @
     ''\<newline>                <span class="card-source">Reuters</span>'' @
     ''\<newline>                <time datetime="2024-05-01T09:30:00Z">1 May 2024, 09:30</time>'' @
     ''\<newline>            </header>'' @
     ''\<newline>            <h2 class="card-title">Markets rally</h2>'' @
     ''\<newline>            <p class="card-summary">Stocks rose.</p>'' @
     ''\<newline>            <footer class="card-footer">'' @
     ''\<newline>                <div class="sentiment-badge sentiment-Positive">Positive</div>'' @
     ''\<newline>                <div class="impact-score">Impact: 7/10</div>'' @
     ''\<newline>                <a href="https://example.com/a'' @
       ''" target="_blank" rel="noopener noreferrer" class="source-link">Read Source '' @
       [CHR 0xE2, CHR 0x86, CHR 0x92] @ ''</a>'' @
     ''\<newline>            </footer>'' @
     ''\<newline>        </div>'' @
     ''\<newline>    ''
   \<and> newsContainer_innerHTML
     (renderAll example_host
        (example_feed_state\<lparr>newsContainer_innerHTML := ''stale'',
           stockBarContainer_innerHTML := ''stale'', finally_runs := 3\<rparr>)) =
     newsContainer_innerHTML
       (renderAll example_host
          (renderAll example_host
             (example_feed_state\<lparr>newsContainer_innerHTML := ''stale'',
                stockBarContainer_innerHTML := ''stale'', finally_runs := 3\<rparr>)))
   \<and> stockBarContainer_innerHTML
     (renderAll example_host
        (renderAll example_host
           (example_feed_state\<lparr>newsContainer_innerHTML := ''stale'',
              stockBarContainer_innerHTML := ''stale'', finally_runs := 3\<rparr>))) =
     ''<div class="stock-ticker-inner">'' @
     ''\<newline>            <div class="stock-box">'' @
     ''\<newline>                <span class="symbol">IBM</span>'' @
     ''\<newline>                <span class="price">120.00</span>'' @
     ''\<newline>                <span class="change positive">'' @
     ''\<newline>                    +0.00 (+0.00%)'' @
     ''\<newline>                </span>'' @
     ''\<newline>            </div>'' @
     ''\<newline>        '' @
     ''\<newline>            <div class="stock-box">'' @
     ''\<newline>                <span class="symbol">IBM</span>'' @
     ''\<newline>                <span class="price">120.00</span>'' @
     ''\<newline>                <span class="change positive">'' @
     ''\<newline>                    +0.00 (+0.00%)'' @
     ''\<newline>                </span>'' @
     ''\<newline>            </div>'' @
     ''\<newline>        '' @
     ''</div>''
   \<and> stockBarContainer_innerHTML
     (renderAll example_host
        (example_feed_state\<lparr>newsContainer_innerHTML := ''stale'',
           stockBarContainer_innerHTML := ''stale'', finally_runs := 3\<rparr>)) =
     stockBarContainer_innerHTML (renderAll example_host example_feed_state)\<close>
proof -
  note inst = rendering_idempotent
    [of example_host
        "example_feed_state\<lparr>newsContainer_innerHTML := ''stale'',
           stockBarContainer_innerHTML := ''stale'', finally_runs := 3\<rparr>"
        example_feed_state]
  have same: "newsData (example_feed_state\<lparr>newsContainer_innerHTML := ''stale'',
                 stockBarContainer_innerHTML := ''stale'', finally_runs := 3\<rparr>) =
               newsData example_feed_state
            \<and> stockData (example_feed_state\<lparr>newsContainer_innerHTML := ''stale'',
                 stockBarContainer_innerHTML := ''stale'', finally_runs := 3\<rparr>) =
               stockData example_feed_state"
    by simp
  have card: \<open>newsContainer_innerHTML (renderAll example_host example_feed_state) =
     ''\<newline>        <div class="story-card">'' @
     ''\<newline>            <header class="card-header">'' @
     ''\<newline>                <span class="card-source">Reuters</span>'' @
     ''\<newline>                <time datetime="2024-05-01T09:30:00Z">1 May 2024, 09:30</time>'' @
     ''\<newline>            </header>'' @
     ''\<newline>            <h2 class="card-title">Markets rally</h2>'' @
     ''\<newline>            <p class="card-summary">Stocks rose.</p>'' @
     ''\<newline>            <footer class="card-footer">'' @
     ''\<newline>                <div class="sentiment-badge sentiment-Positive">Positive</div>'' @
     ''\<newline>                <div class="impact-score">Impact: 7/10</div>'' @
     ''\<newline>                <a href="https://example.com/a'' @
       ''" target="_blank" rel="noopener noreferrer" class="source-link">Read Source '' @
       [CHR 0xE2, CHR 0x86, CHR 0x92] @ ''</a>'' @
     ''\<newline>            </footer>'' @
     ''\<newline>        </div>'' @
     ''\<newline>    ''\<close>
    by (simp add: renderAll_def renderNewsFeed_def renderStockBar_frame example_feed_state_def
          example_story_def renderNewsCard_def news_card_markup_def Let_def str_or_def
          num_or_def example_host_simps date_utc_examples integer_dec_examples)
  have ticker: \<open>stockBarContainer_innerHTML (renderAll example_host example_feed_state) =
     ''<div class="stock-ticker-inner">'' @
     ''\<newline>            <div class="stock-box">'' @
     ''\<newline>                <span class="symbol">IBM</span>'' @
     ''\<newline>                <span class="price">120.00</span>'' @
     ''\<newline>                <span class="change positive">'' @
     ''\<newline>                    +0.00 (+0.00%)'' @
     ''\<newline>                </span>'' @
     ''\<newline>            </div>'' @
     ''\<newline>        '' @
     ''\<newline>            <div class="stock-box">'' @
     ''\<newline>                <span class="symbol">IBM</span>'' @
     ''\<newline>                <span class="price">120.00</span>'' @
     ''\<newline>                <span class="change positive">'' @
     ''\<newline>                    +0.00 (+0.00%)'' @
     ''\<newline>                </span>'' @
     ''\<newline>            </div>'' @
     ''\<newline>        '' @
     ''</div>''\<close>
    by (simp add: renderAll_def renderNewsFeed_def renderError_def renderStockBar_def
          example_feed_state_def example_quote_def stock_box_def stock_box_markup_def Let_def
          example_host_simps toFixed2_dec_examples)
  from inst same
  have eq: "stockBarContainer_innerHTML
        (renderAll example_host
           (example_feed_state\<lparr>newsContainer_innerHTML := ''stale'',
              stockBarContainer_innerHTML := ''stale'', finally_runs := 3\<rparr>)) =
      stockBarContainer_innerHTML (renderAll example_host example_feed_state)"
    "newsContainer_innerHTML
        (renderAll example_host
           (example_feed_state\<lparr>newsContainer_innerHTML := ''stale'',
              stockBarContainer_innerHTML := ''stale'', finally_runs := 3\<rparr>)) =
      newsContainer_innerHTML (renderAll example_host example_feed_state)"
    by blast+
  from inst
  have idem: "renderAll example_host
        (renderAll example_host
           (example_feed_state\<lparr>newsContainer_innerHTML := ''stale'',
              stockBarContainer_innerHTML := ''stale'', finally_runs := 3\<rparr>)) =
      renderAll example_host
        (example_feed_state\<lparr>newsContainer_innerHTML := ''stale'',
           stockBarContainer_innerHTML := ''stale'', finally_runs := 3\<rparr>)"
    by blast
  show ?thesis
    unfolding idem eq card ticker by simp
qed

section \<open>Question client\<close>

text \<open>
  C5. When the trimmed question is empty or a question is already in flight, the call
  returns before anything is written or sent: the whole page state, the log of requests
  included, is what it was. An accepted call sets the busy flag and sends one request, so
  a second call made before the answer arrives changes nothing and the log holds the one
  request.
\<close>

theorem ask_guard_noop:
  "(trim h (qaInput_value s) = [] \<or> isAsking s \<longrightarrow> handleAskQuestion_begin h s = s)
   \<and> (trim h (qaInput_value t) \<noteq> [] \<and> \<not> isAsking t \<longrightarrow>
        isAsking (handleAskQuestion_begin h t)
        \<and> requests (handleAskQuestion_begin h t) =
            requests t @ [POST ''/api/ask'' (trim h (qaInput_value t))]
        \<and> handleAskQuestion_begin h (handleAskQuestion_begin h t) = handleAskQuestion_begin h t)"
  by (simp add: handleAskQuestion_begin_def Let_def)

theorem ask_guard_noop_witness:
  "handleAskQuestion_begin example_host (example_state\<lparr>qaInput_value := ''   ''\<rparr>) =
     example_state\<lparr>qaInput_value := ''   ''\<rparr>
   \<and> requests (handleAskQuestion_begin example_host
        (handleAskQuestion_begin example_host
           (example_state\<lparr>qaInput_value := '' What happened to AAPL? ''\<rparr>))) =
      [POST ''/api/ask'' ''What happened to AAPL?'']"
proof -
  have 1: "trim example_host (qaInput_value (example_state\<lparr>qaInput_value := ''   ''\<rparr>)) = []
             \<or> isAsking (example_state\<lparr>qaInput_value := ''   ''\<rparr>)"
    by (simp add: example_host_simps trim_ascii_examples)
  have 2: "trim example_host
             (qaInput_value (example_state\<lparr>qaInput_value := '' What happened to AAPL? ''\<rparr>)) \<noteq> []
           \<and> \<not> isAsking (example_state\<lparr>qaInput_value := '' What happened to AAPL? ''\<rparr>)"
    by (simp add: example_host_simps trim_ascii_examples example_state_def)
  note inst = ask_guard_noop
    [of example_host "example_state\<lparr>qaInput_value := ''   ''\<rparr>"
        "example_state\<lparr>qaInput_value := '' What happened to AAPL? ''\<rparr>"]
  from inst 1
  have a: "handleAskQuestion_begin example_host (example_state\<lparr>qaInput_value := ''   ''\<rparr>) =
             example_state\<lparr>qaInput_value := ''   ''\<rparr>"
    by blast
  from inst 2
  have b: "requests (handleAskQuestion_begin example_host
        (handleAskQuestion_begin example_host
           (example_state\<lparr>qaInput_value := '' What happened to AAPL? ''\<rparr>))) =
      requests (example_state\<lparr>qaInput_value := '' What happened to AAPL? ''\<rparr>) @
      [POST ''/api/ask'' (trim example_host
         (qaInput_value (example_state\<lparr>qaInput_value := '' What happened to AAPL? ''\<rparr>)))]"
    by simp
  from a b show ?thesis
    by (simp add: example_host_simps trim_ascii_examples example_state_def)
qed




section \<open>Feed client\<close>

text \<open>
  C7 (as amended). When the feed request does not come back with a success envelope, the
  news and stock slots are what they were before the call and the error view is shown.
  After a rejected \<^verbatim>\<open>fetch\<close>, a response that is not OK or a body that cannot be read, the
  view carries the connectivity message. After an answer whose status is not \<open>success\<close> it
  carries the answer's message when there is one and it is not empty, and
  \<open>Failed to load data.\<close> otherwise: the claim has the message shown whenever it is present,
  and the script takes the default for every falsy message, the empty string included.
  The fragment written to the feed area is given in full.
\<close>

theorem feed_failure_keeps_state:
  \<open>(outcome = Rejected \<or> outcome = Response False statusText body
      \<or> outcome = Response True statusText Unparsable
      \<or> outcome = Response True statusText JsonNull \<longrightarrow>
      newsData (fetchMainFeed h outcome s) = newsData s
      \<and> stockData (fetchMainFeed h outcome s) = stockData s
      \<and> newsContainer_innerHTML (fetchMainFeed h outcome s) =
          ''\<newline>        <div class="error-screen">'' @
          ''\<newline>            <h2>Something went wrong</h2>'' @
          ''\<newline>            <p>Could not connect to the server. Please try again later.</p>'' @
          ''\<newline>        </div>'' @
          ''\<newline>    '')
   \<and> (status result \<noteq> Some ''success'' \<longrightarrow>
      newsData (fetchMainFeed h (Response True statusText' (JsonObject result)) t) = newsData t
      \<and> stockData (fetchMainFeed h (Response True statusText' (JsonObject result)) t) =
          stockData t
      \<and> newsContainer_innerHTML
          (fetchMainFeed h (Response True statusText' (JsonObject result)) t) =
          ''\<newline>        <div class="error-screen">'' @
          ''\<newline>            <h2>Something went wrong</h2>'' @
          ''\<newline>            <p>'' @
            (case message result of
               None \<Rightarrow> ''Failed to load data.''
             | Some m \<Rightarrow> if m = [] then ''Failed to load data.'' else m) @ ''</p>'' @
          ''\<newline>        </div>'' @
          ''\<newline>    '')\<close>
  by (auto simp: fetchMainFeed_def fetchMainFeed_begin_def fetchMainFeed_resume_def
        fetchMainFeed_try_def renderError_def connect_message_def str_or_def error_markup_def
        split: option.splits)

text \<open>
  The page of the example holds one story and one quote when the request fails: with an
  HTTP 500 and with an answer that reports a failure. Both slots hold them afterwards.
\<close>

theorem feed_failure_keeps_state_witness:
  \<open>newsData
     (fetchMainFeed example_host (Response False ''Internal Server Error'' Unparsable)
        example_feed_state) = [example_story]
   \<and> stockData
     (fetchMainFeed example_host (Response False ''Internal Server Error'' Unparsable)
        example_feed_state) = [(''IBM'', example_quote)]
   \<and> newsContainer_innerHTML
     (fetchMainFeed example_host (Response False ''Internal Server Error'' Unparsable)
        example_feed_state) =
     ''\<newline>        <div class="error-screen">'' @
     ''\<newline>            <h2>Something went wrong</h2>'' @
     ''\<newline>            <p>Could not connect to the server. Please try again later.</p>'' @
     ''\<newline>        </div>'' @
     ''\<newline>    ''
   \<and> newsData
     (fetchMainFeed example_host
        (Response True ''OK''
           (JsonObject \<lparr>status = Some ''error'', message = Some ''Worker is down.'',
                        answer = None, data = None\<rparr>))
        example_feed_state) = [example_story]
   \<and> stockData
     (fetchMainFeed example_host
        (Response True ''OK''
           (JsonObject \<lparr>status = Some ''error'', message = Some ''Worker is down.'',
                        answer = None, data = None\<rparr>))
        example_feed_state) = [(''IBM'', example_quote)]
   \<and> newsContainer_innerHTML
     (fetchMainFeed example_host
        (Response True ''OK''
           (JsonObject \<lparr>status = Some ''error'', message = Some ''Worker is down.'',
                        answer = None, data = None\<rparr>))
        example_feed_state) =
     ''\<newline>        <div class="error-screen">'' @
     ''\<newline>            <h2>Something went wrong</h2>'' @
     ''\<newline>            <p>Worker is down.</p>'' @
     ''\<newline>        </div>'' @
     ''\<newline>    ''\<close>
proof -
  have slots: "newsData example_feed_state = [example_story]"
    "stockData example_feed_state = [(''IBM'', example_quote)]"
    by (simp_all add: example_feed_state_def)
  from feed_failure_keeps_state
    [of "Response False ''Internal Server Error'' Unparsable" "''Internal Server Error''"
        Unparsable example_host example_feed_state
        "\<lparr>status = Some ''error'', message = Some ''Worker is down.'',
          answer = None, data = None\<rparr>"
        "''OK''" example_feed_state]
    slots
  show ?thesis by simp
qed

text \<open>
  C7 as stated fails for an answer that reports a failure with an empty message: the
  message is present, and the view shows the default text, not the message.
\<close>

theorem feed_message_counterexample:
  "message \<lparr>status = Some ''error'', message = Some [], answer = None, data = None\<rparr> = Some []
   \<and> newsContainer_innerHTML
     (fetchMainFeed example_host
        (Response True ''OK''
           (JsonObject \<lparr>status = Some ''error'', message = Some [], answer = None, data = None\<rparr>))
        example_state) = error_markup ''Failed to load data.''
   \<and> newsContainer_innerHTML
     (fetchMainFeed example_host
        (Response True ''OK''
           (JsonObject \<lparr>status = Some ''error'', message = Some [], answer = None, data = None\<rparr>))
        example_state) \<noteq> error_markup []"
  by (simp add: fetchMainFeed_def fetchMainFeed_begin_def fetchMainFeed_resume_def
        fetchMainFeed_try_def renderError_def str_or_def error_markup_inject)

end
